theory Spec2Isabelle
  imports Complex_Main
begin

section \<open>Scalars, vectors, quaternions, matrices\<close>

text \<open>
  The camera of \<^verbatim>\<open>src/cinder/Camera.cpp\<close> computes with \<^verbatim>\<open>float\<close>. The
  embedding reads every \<^verbatim>\<open>float\<close> as a real number and every arithmetic operator as
  the exact one: rounding, infinities and NaN are outside the model, and a division by
  zero has HOL's value \<open>0\<close> where the float code yields an infinity or NaN.

  The properties settled below are therefore of kinds that do not depend on how the
  arithmetic rounds: which members an operation writes and which it leaves alone, and
  from which expression of the camera's parameters a member is computed. The rotation
  that \<^verbatim>\<open>setViewDirection\<close> stores is identified in exact arithmetic; the float result is
  that rotation up to rounding. That an identity between float results holds exactly (a
  product that is exactly zero, a corner that is exactly \<open>1\<close>) is a property of
  binary32 rounding, which this embedding does not represent; no such identity is stated
  of the float code.

  The vector, quaternion and matrix types are those of the vendored GLM library. They
  are plain aggregates; their components are named after GLM's.
\<close>

datatype vec2 = Vec2 (v2x: real) (v2y: real)

datatype vec3 = Vec3 (vx: real) (vy: real) (vz: real)

datatype vec4 = Vec4 (v4x: real) (v4y: real) (v4z: real) (v4w: real)

text \<open>GLM's quaternion constructor takes \<open>w\<close> first: \<^verbatim>\<open>quat(w, x, y, z)\<close>.\<close>

datatype quat = Quat (qw: real) (qx: real) (qy: real) (qz: real)

text \<open>
  A \<^verbatim>\<open>mat4\<close> is column-major: \<^verbatim>\<open>m[c]\<close> is column \<open>c\<close>, a \<^verbatim>\<open>vec4\<close>, and
  \<^verbatim>\<open>m[c][r]\<close> its component \<open>r\<close>. Indices range over \<open>0..3\<close>; the type \<open>idx\<close>
  has exactly these four values, so no access is out of range.
\<close>

datatype idx = I0 | I1 | I2 | I3

datatype mat4 = Mat4 (col0: vec4) (col1: vec4) (col2: vec4) (col3: vec4)

fun vec4_get :: "vec4 \<Rightarrow> idx \<Rightarrow> real" where
  "vec4_get v I0 = v4x v"
| "vec4_get v I1 = v4y v"
| "vec4_get v I2 = v4z v"
| "vec4_get v I3 = v4w v"

fun vec4_set :: "vec4 \<Rightarrow> idx \<Rightarrow> real \<Rightarrow> vec4" where
  "vec4_set v I0 a = Vec4 a (v4y v) (v4z v) (v4w v)"
| "vec4_set v I1 a = Vec4 (v4x v) a (v4z v) (v4w v)"
| "vec4_set v I2 a = Vec4 (v4x v) (v4y v) a (v4w v)"
| "vec4_set v I3 a = Vec4 (v4x v) (v4y v) (v4z v) a"

fun mat4_col :: "mat4 \<Rightarrow> idx \<Rightarrow> vec4" where
  "mat4_col m I0 = col0 m"
| "mat4_col m I1 = col1 m"
| "mat4_col m I2 = col2 m"
| "mat4_col m I3 = col3 m"

text \<open>\<^verbatim>\<open>m[c][r]\<close> read, and the assignment \<^verbatim>\<open>m[c][r] = a\<close>.\<close>

definition mat4_get :: "mat4 \<Rightarrow> idx \<Rightarrow> idx \<Rightarrow> real" where
  "mat4_get m c r = vec4_get (mat4_col m c) r"

fun mat4_set :: "mat4 \<Rightarrow> idx \<Rightarrow> idx \<Rightarrow> real \<Rightarrow> mat4" where
  "mat4_set m I0 r a = Mat4 (vec4_set (col0 m) r a) (col1 m) (col2 m) (col3 m)"
| "mat4_set m I1 r a = Mat4 (col0 m) (vec4_set (col1 m) r a) (col2 m) (col3 m)"
| "mat4_set m I2 r a = Mat4 (col0 m) (col1 m) (vec4_set (col2 m) r a) (col3 m)"
| "mat4_set m I3 r a = Mat4 (col0 m) (col1 m) (col2 m) (vec4_set (col3 m) r a)"

text \<open>
  \<^verbatim>\<open>mat4 * vec4\<close>: the linear combination of the columns with the components of the
  vector, so component \<open>r\<close> of the product is \<open>\<Sum>c. m[c][r] * v[c]\<close>.
\<close>

definition mat4_mul_vec4 :: "mat4 \<Rightarrow> vec4 \<Rightarrow> vec4" where
  "mat4_mul_vec4 m v =
     Vec4 (v4x (col0 m) * v4x v + v4x (col1 m) * v4y v + v4x (col2 m) * v4z v + v4x (col3 m) * v4w v)
          (v4y (col0 m) * v4x v + v4y (col1 m) * v4y v + v4y (col2 m) * v4z v + v4y (col3 m) * v4w v)
          (v4z (col0 m) * v4x v + v4z (col1 m) * v4y v + v4z (col2 m) * v4z v + v4z (col3 m) * v4w v)
          (v4w (col0 m) * v4x v + v4w (col1 m) * v4y v + v4w (col2 m) * v4z v + v4w (col3 m) * v4w v)"

text \<open>\<^verbatim>\<open>vec4( v, w )\<close> and \<^verbatim>\<open>vec3( v4 )\<close>.\<close>

definition vec4_of :: "vec3 \<Rightarrow> real \<Rightarrow> vec4" where
  "vec4_of v w = Vec4 (vx v) (vy v) (vz v) w"

definition vec3_of :: "vec4 \<Rightarrow> vec3" where
  "vec3_of v = Vec3 (v4x v) (v4y v) (v4z v)"

subsection \<open>Operations on \<open>vec3\<close>\<close>

text \<open>
  Modelled from the spec: the vector operations of the vendored GLM library, which is not
  among the sources. The spec lists them (sum, difference, scaling, dot and cross product,
  length, distance, normalisation) with their standard meaning.
\<close>

definition vadd :: "vec3 \<Rightarrow> vec3 \<Rightarrow> vec3" where
  "vadd a b = Vec3 (vx a + vx b) (vy a + vy b) (vz a + vz b)"

definition vsub :: "vec3 \<Rightarrow> vec3 \<Rightarrow> vec3" where
  "vsub a b = Vec3 (vx a - vx b) (vy a - vy b) (vz a - vz b)"

definition vneg :: "vec3 \<Rightarrow> vec3" where
  "vneg a = Vec3 (- vx a) (- vy a) (- vz a)"

text \<open>Scalar times vector; the source writes both \<^verbatim>\<open>k * v\<close> and \<^verbatim>\<open>v * k\<close>.\<close>

definition smul :: "real \<Rightarrow> vec3 \<Rightarrow> vec3" where
  "smul k a = Vec3 (k * vx a) (k * vy a) (k * vz a)"

definition dot :: "vec3 \<Rightarrow> vec3 \<Rightarrow> real" where
  "dot a b = vx a * vx b + vy a * vy b + vz a * vz b"

definition cross :: "vec3 \<Rightarrow> vec3 \<Rightarrow> vec3" where
  "cross a b = Vec3 (vy a * vz b - vy b * vz a)
                    (vz a * vx b - vz b * vx a)
                    (vx a * vy b - vx b * vy a)"

definition length2 :: "vec3 \<Rightarrow> real" where
  "length2 a = dot a a"

definition vlength :: "vec3 \<Rightarrow> real" where
  "vlength a = sqrt (dot a a)"

definition distance :: "vec3 \<Rightarrow> vec3 \<Rightarrow> real" where
  "distance a b = vlength (vsub b a)"

text \<open>
  \<^verbatim>\<open>normalize( v )\<close> on a \<^verbatim>\<open>vec3\<close> is \<^verbatim>\<open>v * inversesqrt( dot( v, v ) )\<close>. At the
  zero vector the float code yields NaN components; the model yields the zero vector.
\<close>

definition normalize_vec3 :: "vec3 \<Rightarrow> vec3" where
  "normalize_vec3 a = smul (1 / sqrt (dot a a)) a"

subsection \<open>Quaternions\<close>

text \<open>
  Modelled from the spec: the quaternion operations of the vendored GLM library, which
  is not among the sources. The spec names them as quaternion normalisation,
  quaternion-vector rotation and the construction of the rotation that maps one vector
  onto another; the definitions compute them the way GLM does.

  \<^verbatim>\<open>glm::normalize( q )\<close> returns the identity quaternion when the length of \<open>q\<close> is
  not positive, and \<open>q\<close> divided by its length otherwise.
\<close>

definition normalize_quat :: "quat \<Rightarrow> quat" where
  "normalize_quat q =
     (let len = sqrt (qw q * qw q + qx q * qx q + qy q * qy q + qz q * qz q)
      in if len \<le> 0 then Quat 1 0 0 0
         else Quat (qw q * (1 / len)) (qx q * (1 / len)) (qy q * (1 / len)) (qz q * (1 / len)))"

text \<open>
  Modelled from the spec: \<^verbatim>\<open>glm::rotate( q, v )\<close>, the rotation of the vector \<open>v\<close> by the
  quaternion \<open>q\<close>, is GLM's \<^verbatim>\<open>q * v\<close>: with \<open>u\<close> the vector part of \<open>q\<close>,
  \<open>v + 2 * (w * (u \<times> v) + u \<times> (u \<times> v))\<close>.
\<close>

definition glm_rotate :: "quat \<Rightarrow> vec3 \<Rightarrow> vec3" where
  "glm_rotate q v =
     (let QuatVector = Vec3 (qx q) (qy q) (qz q);
          uv = cross QuatVector v;
          uuv = cross QuatVector uv
      in vadd v (smul 2 (vadd (smul (qw q) uv) uuv)))"

text \<open>\<^verbatim>\<open>glm::epsilon<float>()\<close> is \<^verbatim>\<open>FLT_EPSILON\<close>, \<open>2\<^sup>-\<^sup>2\<^sup>3\<close>.\<close>

definition epsilon :: real where
  "epsilon = 1 / 2 ^ 23"

text \<open>
  Modelled from the spec: \<^verbatim>\<open>glm::rotation( orig, dest )\<close>, the rotation that maps the unit
  vector \<open>orig\<close> onto the unit vector \<open>dest\<close> along the shortest arc. GLM returns the
  identity when the two (nearly) coincide, a half turn about an axis perpendicular to
  \<open>orig\<close> when they are (nearly) opposite, and otherwise the quaternion
  \<open>(s / 2, (orig \<times> dest) / s)\<close> with \<open>s = sqrt (2 * (1 + orig \<bullet> dest))\<close>.
\<close>

definition glm_rotation :: "vec3 \<Rightarrow> vec3 \<Rightarrow> quat" where
  "glm_rotation orig dest =
     (let cosTheta = dot orig dest
      in if cosTheta \<ge> 1 - epsilon then Quat 1 0 0 0
         else if cosTheta < - 1 + epsilon then
           (let rotationAxis0 = cross (Vec3 0 0 1) orig;
                rotationAxis1 = (if length2 rotationAxis0 < epsilon
                                 then cross (Vec3 1 0 0) orig else rotationAxis0);
                rotationAxis = normalize_vec3 rotationAxis1
            in Quat (cos (pi * 0.5))
                    (vx rotationAxis * sin (pi * 0.5))
                    (vy rotationAxis * sin (pi * 0.5))
                    (vz rotationAxis * sin (pi * 0.5)))
         else
           (let rotationAxis = cross orig dest;
                s = sqrt ((1 + cosTheta) * 2);
                invs = 1 / s
            in Quat (s * 0.5) (vx rotationAxis * invs) (vy rotationAxis * invs)
                    (vz rotationAxis * invs)))"

subsection \<open>Scalar helpers\<close>

text \<open>
  Modelled from the spec: \<^verbatim>\<open>ci::lerp\<close>, \<^verbatim>\<open>toRadians\<close> and \<^verbatim>\<open>toDegrees\<close> of
  \<^verbatim>\<open>cinder/CinderMath.h\<close>, which is not among the sources: linear interpolation from
  \<open>a\<close> to \<open>b\<close>, and the conversions between degrees and radians.
\<close>

definition lerp :: "real \<Rightarrow> real \<Rightarrow> real \<Rightarrow> real" where
  "lerp a b factor = a + (b - a) * factor"

definition toRadians :: "real \<Rightarrow> real" where
  "toRadians x = x * (pi / 180)"


section \<open>The camera state\<close>

text \<open>
  The classes \<^verbatim>\<open>Camera\<close>, \<^verbatim>\<open>CameraPersp\<close>, \<^verbatim>\<open>CameraOrtho\<close> and \<^verbatim>\<open>CameraStereo\<close>
  are declared in \<^verbatim>\<open>cinder/Camera.h\<close>; the member names below are the ones the
  source file reads and writes. One record holds the members of the whole hierarchy, and
  \<open>kind\<close> is the dynamic type of the object, which selects the override of each virtual
  member function. The methods are \<^verbatim>\<open>const\<close> in C++ but write the \<^verbatim>\<open>mutable\<close> cache
  members, so every method of the model that may do so returns the camera it leaves
  behind.
\<close>

datatype camera_kind = Persp | Ortho | Stereo

record camera =
  kind :: camera_kind
  mEyePoint :: vec3
  mViewDirection :: vec3
  mOrientation :: quat
  mCenterOfInterest :: real
  mWorldUp :: vec3
  mFov :: real
  mAspectRatio :: real
  mNearClip :: real
  mFarClip :: real
  mU :: vec3
  mV :: vec3
  mW :: vec3
  mProjectionMatrix :: mat4
  mInverseProjectionMatrix :: mat4
  mProjectionCached :: bool
  mViewMatrix :: mat4
  mModelViewCached :: bool
  mInverseModelViewCached :: bool
  mFrustumLeft :: real
  mFrustumRight :: real
  mFrustumTop :: real
  mFrustumBottom :: real
  mLensShift :: vec2
  mIsStereo :: bool
  mIsLeft :: bool
  mConvergence :: real
  mEyeSeparation :: real
  mProjectionMatrixLeft :: mat4
  mInverseProjectionMatrixLeft :: mat4
  mProjectionMatrixRight :: mat4
  mInverseProjectionMatrixRight :: mat4
  mViewMatrixLeft :: mat4
  mViewMatrixRight :: mat4


record ray =
  mOrigin :: vec3
  mDirection :: vec3

text \<open>
  \<^verbatim>\<open>glm::toQuat( alignZAxisWithTarget( targetDir, upDir ) )\<close>: neither function is among
  the sources (\<^verbatim>\<open>cinder/Matrix.h\<close> and GLM), and no property below depends on the
  quaternion they produce. The pose mutators that call them take the composition as the
  argument \<open>alignQ\<close>.
\<close>

type_synonym aligner = "vec3 \<Rightarrow> vec3 \<Rightarrow> quat"

section \<open>Camera: pose mutators\<close>

definition setEyePoint :: "camera \<Rightarrow> vec3 \<Rightarrow> camera" where
  "setEyePoint c aEyePoint = c\<lparr>mEyePoint := aEyePoint, mModelViewCached := False\<rparr>"

definition setViewDirection :: "camera \<Rightarrow> vec3 \<Rightarrow> camera" where
  "setViewDirection c aViewDirection =
     (let viewDirection = normalize_vec3 aViewDirection
      in c\<lparr>mViewDirection := viewDirection,
           mOrientation := glm_rotation viewDirection (Vec3 0 0 (- 1)),
           mModelViewCached := False\<rparr>)"

definition setOrientation :: "camera \<Rightarrow> quat \<Rightarrow> camera" where
  "setOrientation c aOrientation =
     (let orientation = normalize_quat aOrientation
      in c\<lparr>mOrientation := orientation,
           mViewDirection := glm_rotate orientation (Vec3 0 0 (- 1)),
           mModelViewCached := False\<rparr>)"

definition getFocalLength :: "camera \<Rightarrow> real" where
  "getFocalLength c = 1 / (tan (toRadians (mFov c) * 0.5) * 2)"

definition setWorldUp :: "aligner \<Rightarrow> camera \<Rightarrow> vec3 \<Rightarrow> camera" where
  "setWorldUp alignQ c aWorldUp =
     (let worldUp = normalize_vec3 aWorldUp
      in c\<lparr>mWorldUp := worldUp,
           mOrientation := alignQ (vneg (mViewDirection c)) worldUp,
           mModelViewCached := False\<rparr>)"

text \<open>The three overloads of \<^verbatim>\<open>lookAt\<close>.\<close>

definition lookAt :: "aligner \<Rightarrow> camera \<Rightarrow> vec3 \<Rightarrow> camera" where
  "lookAt alignQ c target =
     (let viewDirection = normalize_vec3 (vsub target (mEyePoint c))
      in c\<lparr>mViewDirection := viewDirection,
           mOrientation := alignQ (vneg viewDirection) (mWorldUp c),
           mModelViewCached := False\<rparr>)"

definition lookAt_eye :: "aligner \<Rightarrow> camera \<Rightarrow> vec3 \<Rightarrow> vec3 \<Rightarrow> camera" where
  "lookAt_eye alignQ c aEyePoint target =
     (let viewDirection = normalize_vec3 (vsub target aEyePoint)
      in c\<lparr>mEyePoint := aEyePoint,
           mViewDirection := viewDirection,
           mOrientation := alignQ (vneg viewDirection) (mWorldUp c),
           mModelViewCached := False\<rparr>)"

definition lookAt_eye_up :: "aligner \<Rightarrow> camera \<Rightarrow> vec3 \<Rightarrow> vec3 \<Rightarrow> vec3 \<Rightarrow> camera" where
  "lookAt_eye_up alignQ c aEyePoint target aWorldUp =
     (let worldUp = normalize_vec3 aWorldUp;
          viewDirection = normalize_vec3 (vsub target aEyePoint)
      in c\<lparr>mEyePoint := aEyePoint,
           mWorldUp := worldUp,
           mViewDirection := viewDirection,
           mOrientation := alignQ (vneg viewDirection) worldUp,
           mModelViewCached := False\<rparr>)"

definition setCenterOfInterestPoint :: "aligner \<Rightarrow> camera \<Rightarrow> vec3 \<Rightarrow> camera" where
  "setCenterOfInterestPoint alignQ c centerOfInterestPoint =
     lookAt alignQ
       (c\<lparr>mCenterOfInterest := distance (mEyePoint c) centerOfInterestPoint\<rparr>)
       centerOfInterestPoint"

section \<open>View matrix\<close>

definition Camera_calcViewMatrix :: "camera \<Rightarrow> camera" where
  "Camera_calcViewMatrix c =
     (let W = vneg (normalize_vec3 (mViewDirection c));
          U = glm_rotate (mOrientation c) (Vec3 1 0 0);
          V = glm_rotate (mOrientation c) (Vec3 0 1 0);
          d = Vec3 (- dot (mEyePoint c) U) (- dot (mEyePoint c) V) (- dot (mEyePoint c) W)
      in c\<lparr>mW := W, mU := U, mV := V,
           mViewMatrix := Mat4 (Vec4 (vx U) (vx V) (vx W) 0)
                               (Vec4 (vy U) (vy V) (vy W) 0)
                               (Vec4 (vz U) (vz V) (vz W) 0)
                               (Vec4 (vx d) (vy d) (vz d) 1),
           mModelViewCached := True,
           mInverseModelViewCached := False\<rparr>)"

text \<open>
  \<^verbatim>\<open>CameraStereo::calcViewMatrix\<close>: the base matrix first, then the translation column of
  the left and of the right matrix from the shifted eye points.
\<close>

definition CameraStereo_calcViewMatrix :: "camera \<Rightarrow> camera" where
  "CameraStereo_calcViewMatrix c =
     (let c1 = Camera_calcViewMatrix c;
          eyeL = vsub (mEyePoint c1)
                   (smul (0.5 * mEyeSeparation c1) (glm_rotate (mOrientation c1) (Vec3 1 0 0)));
          dL = Vec3 (- dot eyeL (mU c1)) (- dot eyeL (mV c1)) (- dot eyeL (mW c1));
          eyeR = vadd (mEyePoint c1)
                   (smul (0.5 * mEyeSeparation c1) (glm_rotate (mOrientation c1) (Vec3 1 0 0)));
          dR = Vec3 (- dot eyeR (mU c1)) (- dot eyeR (mV c1)) (- dot eyeR (mW c1))
      in c1\<lparr>mViewMatrixLeft :=
              mat4_set (mat4_set (mat4_set (mViewMatrix c1) I3 I0 (vx dL)) I3 I1 (vy dL))
                I3 I2 (vz dL),
            mViewMatrixRight :=
              mat4_set (mat4_set (mat4_set (mViewMatrix c1) I3 I0 (vx dR)) I3 I1 (vy dR))
                I3 I2 (vz dR),
            mModelViewCached := True,
            mInverseModelViewCached := False\<rparr>)"

text \<open>The virtual call \<^verbatim>\<open>calcViewMatrix()\<close>.\<close>

definition calcViewMatrix :: "camera \<Rightarrow> camera" where
  "calcViewMatrix c =
     (case kind c of
        Stereo \<Rightarrow> CameraStereo_calcViewMatrix c
      | Persp \<Rightarrow> Camera_calcViewMatrix c
      | Ortho \<Rightarrow> Camera_calcViewMatrix c)"

section \<open>Projection matrices\<close>

definition setPerspective :: "camera \<Rightarrow> real \<Rightarrow> real \<Rightarrow> real \<Rightarrow> real \<Rightarrow> camera" where
  "setPerspective c verticalFovDegrees aspectRatio nearPlane farPlane =
     c\<lparr>mFov := verticalFovDegrees,
       mAspectRatio := aspectRatio,
       mNearClip := nearPlane,
       mFarClip := farPlane,
       mProjectionCached := False\<rparr>"

definition setLensShift :: "camera \<Rightarrow> real \<Rightarrow> real \<Rightarrow> camera" where
  "setLensShift c horizontal vertical =
     c\<lparr>mLensShift := Vec2 horizontal vertical, mProjectionCached := False\<rparr>"

text \<open>
  \<^verbatim>\<open>CameraPersp::calcProjection\<close>. The four extents are first derived from the field of
  view, then redistributed by the lens shift; \<open>frustumTop0\<close> etc. are the values of the
  members before the lens shift is applied.
\<close>

definition CameraPersp_calcProjection :: "camera \<Rightarrow> camera" where
  "CameraPersp_calcProjection c =
     (let frustumTop0 = mNearClip c * tan (pi / 180 * mFov c * 0.5);
          frustumBottom0 = - frustumTop0;
          frustumRight0 = frustumTop0 * mAspectRatio c;
          frustumLeft0 = - frustumRight0;
          frustumTop = (if v2y (mLensShift c) \<noteq> 0
                        then lerp 0 (2 * frustumTop0) (0.5 + 0.5 * v2y (mLensShift c))
                        else frustumTop0);
          frustumBottom = (if v2y (mLensShift c) \<noteq> 0
                           then lerp (2 * frustumBottom0) 0 (0.5 + 0.5 * v2y (mLensShift c))
                           else frustumBottom0);
          frustumRight = (if v2x (mLensShift c) \<noteq> 0
                          then lerp (2 * frustumRight0) 0 (0.5 - 0.5 * v2x (mLensShift c))
                          else frustumRight0);
          frustumLeft = (if v2x (mLensShift c) \<noteq> 0
                         then lerp 0 (2 * frustumLeft0) (0.5 - 0.5 * v2x (mLensShift c))
                         else frustumLeft0);
          nearClip = mNearClip c;
          farClip = mFarClip c
      in c\<lparr>mFrustumTop := frustumTop,
           mFrustumBottom := frustumBottom,
           mFrustumRight := frustumRight,
           mFrustumLeft := frustumLeft,
           mProjectionMatrix :=
             Mat4 (Vec4 (2 * nearClip / (frustumRight - frustumLeft)) 0 0 0)
                  (Vec4 0 (2 * nearClip / (frustumTop - frustumBottom)) 0 0)
                  (Vec4 ((frustumRight + frustumLeft) / (frustumRight - frustumLeft))
                        ((frustumTop + frustumBottom) / (frustumTop - frustumBottom))
                        (- (farClip + nearClip) / (farClip - nearClip))
                        (- 1))
                  (Vec4 0 0 (- 2 * farClip * nearClip / (farClip - nearClip)) 0),
           mInverseProjectionMatrix :=
             Mat4 (Vec4 ((frustumRight - frustumLeft) / (2 * nearClip)) 0 0 0)
                  (Vec4 0 ((frustumTop - frustumBottom) / (2 * nearClip)) 0 0)
                  (Vec4 0 0 0 (- (farClip - nearClip) / (2 * farClip * nearClip)))
                  (Vec4 ((frustumRight + frustumLeft) / (2 * nearClip))
                        ((frustumTop + frustumBottom) / (2 * nearClip))
                        (- 1)
                        ((farClip + nearClip) / (2 * farClip * nearClip))),
           mProjectionCached := True\<rparr>)"

definition setOrtho :: "camera \<Rightarrow> real \<Rightarrow> real \<Rightarrow> real \<Rightarrow> real \<Rightarrow> real \<Rightarrow> real \<Rightarrow> camera" where
  "setOrtho c aLeft aRight aBottom aTop nearPlane farPlane =
     c\<lparr>mFrustumLeft := aLeft,
       mFrustumRight := aRight,
       mFrustumTop := aTop,
       mFrustumBottom := aBottom,
       mNearClip := nearPlane,
       mFarClip := farPlane,
       mProjectionCached := False\<rparr>"

definition CameraOrtho_calcProjection :: "camera \<Rightarrow> camera" where
  "CameraOrtho_calcProjection c =
     c\<lparr>mProjectionMatrix :=
         Mat4 (Vec4 (2 / (mFrustumRight c - mFrustumLeft c)) 0 0 0)
              (Vec4 0 (2 / (mFrustumTop c - mFrustumBottom c)) 0 0)
              (Vec4 0 0 (- 2 / (mFarClip c - mNearClip c)) 0)
              (Vec4 (- (mFrustumRight c + mFrustumLeft c) / (mFrustumRight c - mFrustumLeft c))
                    (- (mFrustumTop c + mFrustumBottom c) / (mFrustumTop c - mFrustumBottom c))
                    (- (mFarClip c + mNearClip c) / (mFarClip c - mNearClip c))
                    1),
       mInverseProjectionMatrix :=
         Mat4 (Vec4 ((mFrustumRight c - mFrustumLeft c) * 0.5) 0 0 0)
              (Vec4 0 ((mFrustumTop c - mFrustumBottom c) * 0.5) 0 0)
              (Vec4 0 0 ((mFarClip c - mNearClip c) * 0.5) 0)
              (Vec4 ((mFrustumRight c + mFrustumLeft c) * 0.5)
                    ((mFrustumTop c + mFrustumBottom c) * 0.5)
                    ((mNearClip c + mFarClip c) * 0.5)
                    1),
       mProjectionCached := True\<rparr>"

text \<open>
  \<^verbatim>\<open>CameraStereo::calcProjection\<close>: the perspective matrices first, copied to the left
  and right members, then two entries of the left inverse projection and two entries of
  the right projection are overwritten.
\<close>

definition CameraStereo_calcProjection :: "camera \<Rightarrow> camera" where
  "CameraStereo_calcProjection c =
     (let c1 = CameraPersp_calcProjection c;
          skewL = mFrustumRight c1 + mFrustumLeft c1
                    + mEyeSeparation c1 * (mNearClip c1 / mConvergence c1);
          skewR = mFrustumRight c1 + mFrustumLeft c1
                    - mEyeSeparation c1 * (mNearClip c1 / mConvergence c1)
      in c1\<lparr>mProjectionMatrixLeft := mProjectionMatrix c1,
            mInverseProjectionMatrixLeft :=
              mat4_set
                (mat4_set (mInverseProjectionMatrix c1) I2 I0
                   (skewL / (mFrustumRight c1 - mFrustumLeft c1)))
                I3 I0 (skewL / (2 * mNearClip c1)),
            mProjectionMatrixRight :=
              mat4_set
                (mat4_set (mProjectionMatrix c1) I2 I0
                   (skewR / (mFrustumRight c1 - mFrustumLeft c1)))
                I3 I0 (skewR / (2 * mNearClip c1)),
            mInverseProjectionMatrixRight := mInverseProjectionMatrix c1,
            mProjectionCached := True\<rparr>)"

text \<open>The virtual call \<^verbatim>\<open>calcProjection()\<close>.\<close>

definition calcProjection :: "camera \<Rightarrow> camera" where
  "calcProjection c =
     (case kind c of
        Persp \<Rightarrow> CameraPersp_calcProjection c
      | Ortho \<Rightarrow> CameraOrtho_calcProjection c
      | Stereo \<Rightarrow> CameraStereo_calcProjection c)"

definition calcMatrices :: "camera \<Rightarrow> camera" where
  "calcMatrices c =
     (let c1 = (if \<not> mModelViewCached c then calcViewMatrix c else c)
      in if \<not> mProjectionCached c1 then calcProjection c1 else c1)"

section \<open>Queries\<close>

text \<open>
  Modelled from the spec: the inline accessors \<^verbatim>\<open>Camera::getViewMatrix\<close> and
  \<^verbatim>\<open>Camera::getProjectionMatrix\<close> of \<^verbatim>\<open>cinder/Camera.h\<close>, which is not among the
  sources. Each ensures that its cache is valid, recomputing the matrix only if the flag
  is false, and returns the cached matrix; the overrides of \<^verbatim>\<open>CameraStereo\<close>, which are
  in the source file, do the same before they select a matrix.
\<close>

definition Camera_getViewMatrix :: "camera \<Rightarrow> mat4 \<times> camera" where
  "Camera_getViewMatrix c =
     (let c1 = (if \<not> mModelViewCached c then calcViewMatrix c else c)
      in (mViewMatrix c1, c1))"

definition Camera_getProjectionMatrix :: "camera \<Rightarrow> mat4 \<times> camera" where
  "Camera_getProjectionMatrix c =
     (let c1 = (if \<not> mProjectionCached c then calcProjection c else c)
      in (mProjectionMatrix c1, c1))"

definition CameraStereo_getProjectionMatrix :: "camera \<Rightarrow> mat4 \<times> camera" where
  "CameraStereo_getProjectionMatrix c =
     (let c1 = (if \<not> mProjectionCached c then calcProjection c else c)
      in (if \<not> mIsStereo c1 then mProjectionMatrix c1
          else if mIsLeft c1 then mProjectionMatrixLeft c1
          else mProjectionMatrixRight c1, c1))"

definition CameraStereo_getViewMatrix :: "camera \<Rightarrow> mat4 \<times> camera" where
  "CameraStereo_getViewMatrix c =
     (let c1 = (if \<not> mModelViewCached c then calcViewMatrix c else c)
      in (if \<not> mIsStereo c1 then mViewMatrix c1
          else if mIsLeft c1 then mViewMatrixLeft c1
          else mViewMatrixRight c1, c1))"

text \<open>The virtual calls \<^verbatim>\<open>getViewMatrix()\<close> and \<^verbatim>\<open>getProjectionMatrix()\<close>.\<close>

definition getViewMatrix :: "camera \<Rightarrow> mat4 \<times> camera" where
  "getViewMatrix c =
     (case kind c of
        Stereo \<Rightarrow> CameraStereo_getViewMatrix c
      | Persp \<Rightarrow> Camera_getViewMatrix c
      | Ortho \<Rightarrow> Camera_getViewMatrix c)"

definition getProjectionMatrix :: "camera \<Rightarrow> mat4 \<times> camera" where
  "getProjectionMatrix c =
     (case kind c of
        Stereo \<Rightarrow> CameraStereo_getProjectionMatrix c
      | Persp \<Rightarrow> Camera_getProjectionMatrix c
      | Ortho \<Rightarrow> Camera_getProjectionMatrix c)"

text \<open>
  The corner queries write four points through their pointer arguments; the model
  returns them in the order of the arguments: top left, top right, bottom left, bottom
  right.
\<close>

type_synonym corners = "vec3 \<times> vec3 \<times> vec3 \<times> vec3"

definition Camera_getNearClipCoordinates :: "camera \<Rightarrow> corners \<times> camera" where
  "Camera_getNearClipCoordinates c =
     (let c1 = calcMatrices c;
          viewDirection = normalize_vec3 (mViewDirection c1);
          corner = (\<lambda>vert horiz.
            vadd (vadd (vadd (mEyePoint c1) (smul (mNearClip c1) viewDirection))
                       (smul vert (mV c1)))
                 (smul horiz (mU c1)))
      in ((corner (mFrustumTop c1) (mFrustumLeft c1),
           corner (mFrustumTop c1) (mFrustumRight c1),
           corner (mFrustumBottom c1) (mFrustumLeft c1),
           corner (mFrustumBottom c1) (mFrustumRight c1)), c1))"

definition Camera_getFarClipCoordinates :: "camera \<Rightarrow> corners \<times> camera" where
  "Camera_getFarClipCoordinates c =
     (let c1 = calcMatrices c;
          viewDirection = normalize_vec3 (mViewDirection c1);
          ratio = mFarClip c1 / mNearClip c1;
          corner = (\<lambda>vert horiz.
            vadd (vadd (vadd (mEyePoint c1) (smul (mFarClip c1) viewDirection))
                       (smul (ratio * vert) (mV c1)))
                 (smul (ratio * horiz) (mU c1)))
      in ((corner (mFrustumTop c1) (mFrustumLeft c1),
           corner (mFrustumTop c1) (mFrustumRight c1),
           corner (mFrustumBottom c1) (mFrustumLeft c1),
           corner (mFrustumBottom c1) (mFrustumRight c1)), c1))"

text \<open>
  \<^verbatim>\<open>getFrustum\<close> writes the six extents in the order left, top, right, bottom, near,
  far.
\<close>

definition getFrustum :: "camera \<Rightarrow> (real \<times> real \<times> real \<times> real \<times> real \<times> real) \<times> camera" where
  "getFrustum c =
     (let c1 = calcMatrices c
      in ((mFrustumLeft c1, mFrustumTop c1, mFrustumRight c1, mFrustumBottom c1,
           mNearClip c1, mFarClip c1), c1))"

definition generateRay :: "camera \<Rightarrow> real \<Rightarrow> real \<Rightarrow> real \<Rightarrow> ray \<times> camera" where
  "generateRay c uPos vPos imagePlaneApectRatio =
     (let c1 = calcMatrices c;
          s = (uPos - 0.5) * imagePlaneApectRatio;
          t = vPos - 0.5;
          viewDistance =
            imagePlaneApectRatio / \<bar>mFrustumRight c1 - mFrustumLeft c1\<bar> * mNearClip c1
      in (\<lparr>mOrigin = mEyePoint c1,
           mDirection = normalize_vec3
             (vsub (vadd (smul s (mU c1)) (smul t (mV c1))) (smul viewDistance (mW c1)))\<rparr>,
          c1))"

text \<open>\<^verbatim>\<open>glm::row( m, r )\<close> is the vector of the entries \<^verbatim>\<open>m[c][r]\<close>, \<open>c = 0..3\<close>.\<close>

definition glm_row :: "mat4 \<Rightarrow> idx \<Rightarrow> vec4" where
  "glm_row m r = Vec4 (mat4_get m I0 r) (mat4_get m I1 r) (mat4_get m I2 r) (mat4_get m I3 r)"

definition getBillboardVectors :: "camera \<Rightarrow> (vec3 \<times> vec3) \<times> camera" where
  "getBillboardVectors c =
     (let (m0, c1) = getViewMatrix c;
          (m1, c2) = getViewMatrix c1
      in ((vec3_of (glm_row m0 I0), vec3_of (glm_row m1 I1)), c2))"

definition worldToScreen :: "camera \<Rightarrow> vec3 \<Rightarrow> real \<Rightarrow> real \<Rightarrow> vec2 \<times> camera" where
  "worldToScreen c worldCoord screenWidth screenHeight =
     (let (view, c1) = getViewMatrix c;
          eyeCoord = vec3_of (mat4_mul_vec4 view (vec4_of worldCoord 1));
          (proj, c2) = getProjectionMatrix c1;
          ndc = mat4_mul_vec4 proj (vec4_of eyeCoord 1);
          ndcx = v4x ndc / v4w ndc;
          ndcy = v4y ndc / v4w ndc
      in (Vec2 ((ndcx + 1) / 2 * screenWidth) ((1 - (ndcy + 1) / 2) * screenHeight), c2))"

definition worldToEyeDepth :: "camera \<Rightarrow> vec3 \<Rightarrow> real \<times> camera" where
  "worldToEyeDepth c worldCoord =
     (let (m, c1) = getViewMatrix c
      in (mat4_get m I0 I2 * vx worldCoord
            + mat4_get m I1 I2 * vy worldCoord
            + mat4_get m I2 I2 * vz worldCoord
            + mat4_get m I3 I2, c1))"

definition worldToNdc :: "camera \<Rightarrow> vec3 \<Rightarrow> vec3 \<times> camera" where
  "worldToNdc c worldCoord =
     (let (view, c1) = getViewMatrix c;
          eye = mat4_mul_vec4 view (vec4_of worldCoord 1);
          (proj, c2) = getProjectionMatrix c1;
          unproj = mat4_mul_vec4 proj eye
      in (Vec3 (v4x unproj / v4w unproj) (v4y unproj / v4w unproj) (v4z unproj / v4w unproj),
          c2))"

subsection \<open>Perspective camera\<close>




subsection \<open>Stereo camera\<close>

definition getEyePointShifted :: "camera \<Rightarrow> vec3" where
  "getEyePointShifted c =
     (if \<not> mIsStereo c then mEyePoint c
      else if mIsLeft c then
        vsub (mEyePoint c)
             (smul (0.5 * mEyeSeparation c) (glm_rotate (mOrientation c) (Vec3 1 0 0)))
      else
        vadd (mEyePoint c)
             (smul (0.5 * mEyeSeparation c) (glm_rotate (mOrientation c) (Vec3 1 0 0))))"

definition CameraStereo_getNearClipCoordinates :: "camera \<Rightarrow> corners \<times> camera" where
  "CameraStereo_getNearClipCoordinates c =
     (let c1 = calcMatrices c;
          viewDirection = normalize_vec3 (mViewDirection c1);
          eye = getEyePointShifted c1;
          shift = 0.5 * mEyeSeparation c1 * (mNearClip c1 / mConvergence c1)
                    * (if mIsStereo c1 then (if mIsLeft c1 then 1 else - 1) else 0);
          left = mFrustumLeft c1 + shift;
          right = mFrustumRight c1 + shift;
          corner = (\<lambda>vert horiz.
            vadd (vadd (vadd eye (smul (mNearClip c1) viewDirection))
                       (smul vert (mV c1)))
                 (smul horiz (mU c1)))
      in ((corner (mFrustumTop c1) left,
           corner (mFrustumTop c1) right,
           corner (mFrustumBottom c1) left,
           corner (mFrustumBottom c1) right), c1))"

definition CameraStereo_getFarClipCoordinates :: "camera \<Rightarrow> corners \<times> camera" where
  "CameraStereo_getFarClipCoordinates c =
     (let c1 = calcMatrices c;
          viewDirection = normalize_vec3 (mViewDirection c1);
          ratio = mFarClip c1 / mNearClip c1;
          eye = getEyePointShifted c1;
          shift = 0.5 * mEyeSeparation c1 * (mNearClip c1 / mConvergence c1)
                    * (if mIsStereo c1 then (if mIsLeft c1 then 1 else - 1) else 0);
          left = mFrustumLeft c1 + shift;
          right = mFrustumRight c1 + shift;
          corner = (\<lambda>vert horiz.
            vadd (vadd (vadd eye (smul (mFarClip c1) viewDirection))
                       (smul (ratio * vert) (mV c1)))
                 (smul (ratio * horiz) (mU c1)))
      in ((corner (mFrustumTop c1) left,
           corner (mFrustumTop c1) right,
           corner (mFrustumBottom c1) left,
           corner (mFrustumBottom c1) right), c1))"

text \<open>The virtual calls of the two corner queries.\<close>

definition getNearClipCoordinates :: "camera \<Rightarrow> corners \<times> camera" where
  "getNearClipCoordinates c =
     (case kind c of
        Stereo \<Rightarrow> CameraStereo_getNearClipCoordinates c
      | Persp \<Rightarrow> Camera_getNearClipCoordinates c
      | Ortho \<Rightarrow> Camera_getNearClipCoordinates c)"

definition getFarClipCoordinates :: "camera \<Rightarrow> corners \<times> camera" where
  "getFarClipCoordinates c =
     (case kind c of
        Stereo \<Rightarrow> CameraStereo_getFarClipCoordinates c
      | Persp \<Rightarrow> Camera_getFarClipCoordinates c
      | Ortho \<Rightarrow> Camera_getFarClipCoordinates c)"

section \<open>Vocabulary of the properties\<close>

text \<open>
  The operations of the pose-mutation contract, as data, so that a property can speak of
  any of them: \<^verbatim>\<open>setEyePoint\<close>, \<^verbatim>\<open>setCenterOfInterestPoint\<close>, \<^verbatim>\<open>setViewDirection\<close>,
  \<^verbatim>\<open>setOrientation\<close>, \<^verbatim>\<open>setWorldUp\<close> and the three overloads of \<^verbatim>\<open>lookAt\<close>.
\<close>

datatype pose_op =
    SetEyePoint vec3
  | SetCenterOfInterestPoint vec3
  | SetViewDirection vec3
  | SetOrientation quat
  | SetWorldUp vec3
  | LookAt vec3
  | LookAtEye vec3 vec3
  | LookAtEyeUp vec3 vec3 vec3

fun apply_pose_op :: "aligner \<Rightarrow> camera \<Rightarrow> pose_op \<Rightarrow> camera" where
  "apply_pose_op alignQ c (SetEyePoint p) = setEyePoint c p"
| "apply_pose_op alignQ c (SetCenterOfInterestPoint p) = setCenterOfInterestPoint alignQ c p"
| "apply_pose_op alignQ c (SetViewDirection d) = setViewDirection c d"
| "apply_pose_op alignQ c (SetOrientation q) = setOrientation c q"
| "apply_pose_op alignQ c (SetWorldUp u) = setWorldUp alignQ c u"
| "apply_pose_op alignQ c (LookAt t) = lookAt alignQ c t"
| "apply_pose_op alignQ c (LookAtEye e t) = lookAt_eye alignQ c e t"
| "apply_pose_op alignQ c (LookAtEyeUp e t u) = lookAt_eye_up alignQ c e t u"

text \<open>
  The queries of the source file, as data, and the camera each of them leaves behind
  (the values they return are dropped here).
\<close>

datatype query =
    GetViewMatrix
  | GetProjectionMatrix
  | GetFrustum
  | GetNearClipCoordinates
  | GetFarClipCoordinates
  | GenerateRay real real real
  | GetBillboardVectors
  | WorldToScreen vec3 real real
  | WorldToEyeDepth vec3
  | WorldToNdc vec3

fun after_query :: "camera \<Rightarrow> query \<Rightarrow> camera" where
  "after_query c GetViewMatrix = snd (getViewMatrix c)"
| "after_query c GetProjectionMatrix = snd (getProjectionMatrix c)"
| "after_query c GetFrustum = snd (getFrustum c)"
| "after_query c GetNearClipCoordinates = snd (getNearClipCoordinates c)"
| "after_query c GetFarClipCoordinates = snd (getFarClipCoordinates c)"
| "after_query c (GenerateRay u v a) = snd (generateRay c u v a)"
| "after_query c GetBillboardVectors = snd (getBillboardVectors c)"
| "after_query c (WorldToScreen p w h) = snd (worldToScreen c p w h)"
| "after_query c (WorldToEyeDepth p) = snd (worldToEyeDepth c p)"
| "after_query c (WorldToNdc p) = snd (worldToNdc c p)"

text \<open>The six stored extents, in the order of the arguments of \<^verbatim>\<open>setOrtho\<close>.\<close>

definition extents :: "camera \<Rightarrow> real \<times> real \<times> real \<times> real \<times> real \<times> real" where
  "extents c = (mFrustumLeft c, mFrustumRight c, mFrustumBottom c, mFrustumTop c,
                mNearClip c, mFarClip c)"

text \<open>The squared length of a quaternion; a unit quaternion has squared length 1.\<close>

definition quat_length2 :: "quat \<Rightarrow> real" where
  "quat_length2 q = qw q * qw q + qx q * qx q + qy q * qy q + qz q * qz q"

text \<open>
  A concrete camera of each kind, on which the theorems are instantiated: at the point
  \<open>(0, 0, 5)\<close>, looking down the negative \<open>z\<close> axis with the identity orientation, a
  field of view of 90 degrees, clip planes at 1 and 10, and nothing cached yet.
\<close>

definition identity_mat4 :: mat4 where
  "identity_mat4 = Mat4 (Vec4 1 0 0 0) (Vec4 0 1 0 0) (Vec4 0 0 1 0) (Vec4 0 0 0 1)"

definition sample_camera :: "camera_kind \<Rightarrow> camera" where
  "sample_camera k =
     \<lparr>kind = k,
      mEyePoint = Vec3 0 0 5,
      mViewDirection = Vec3 0 0 (- 1),
      mOrientation = Quat 1 0 0 0,
      mCenterOfInterest = 5,
      mWorldUp = Vec3 0 1 0,
      mFov = 90,
      mAspectRatio = 1,
      mNearClip = 1,
      mFarClip = 10,
      mU = Vec3 1 0 0,
      mV = Vec3 0 1 0,
      mW = Vec3 0 0 1,
      mProjectionMatrix = identity_mat4,
      mInverseProjectionMatrix = identity_mat4,
      mProjectionCached = False,
      mViewMatrix = identity_mat4,
      mModelViewCached = False,
      mInverseModelViewCached = False,
      mFrustumLeft = - 1,
      mFrustumRight = 1,
      mFrustumTop = 1,
      mFrustumBottom = - 1,
      mLensShift = Vec2 0 0,
      mIsStereo = (k = Stereo),
      mIsLeft = True,
      mConvergence = 5,
      mEyeSeparation = 1 / 10,
      mProjectionMatrixLeft = identity_mat4,
      mInverseProjectionMatrixLeft = identity_mat4,
      mProjectionMatrixRight = identity_mat4,
      mInverseProjectionMatrixRight = identity_mat4,
      mViewMatrixLeft = identity_mat4,
      mViewMatrixRight = identity_mat4\<rparr>"


section \<open>Basic facts\<close>

lemmas calc_defs =
  calcViewMatrix_def calcProjection_def
  CameraStereo_calcViewMatrix_def Camera_calcViewMatrix_def
  CameraStereo_calcProjection_def CameraPersp_calcProjection_def
  CameraOrtho_calcProjection_def

lemmas getMatrix_defs =
  getViewMatrix_def Camera_getViewMatrix_def CameraStereo_getViewMatrix_def
  getProjectionMatrix_def Camera_getProjectionMatrix_def CameraStereo_getProjectionMatrix_def

lemma vsub_eq_self: "vsub e s = e \<longleftrightarrow> s = Vec3 0 0 0"
  by (cases e; cases s) (simp add: vsub_def)

lemma vadd_eq_self: "vadd e s = e \<longleftrightarrow> s = Vec3 0 0 0"
  by (cases e; cases s) (simp add: vadd_def)

lemma dot_smul: "dot (smul k v) (smul k v) = (k * k) * dot v v"
  by (simp add: dot_def smul_def algebra_simps)

subsection \<open>What the cache computations write\<close>

lemma calcMatrices_pose_clip:
  "mEyePoint (calcMatrices c) = mEyePoint c \<and> mNearClip (calcMatrices c) = mNearClip c
     \<and> mFarClip (calcMatrices c) = mFarClip c"
  by (cases "kind c") (simp_all add: calcMatrices_def calc_defs Let_def)

lemma getViewMatrix_cached: "mModelViewCached (snd (getViewMatrix c))"
  by (cases "kind c") (simp_all add: getMatrix_defs calc_defs Let_def)

lemma getViewMatrix_idem: "fst (getViewMatrix (snd (getViewMatrix c))) = fst (getViewMatrix c)"
  by (cases "kind c") (simp_all add: getMatrix_defs calc_defs Let_def)

lemma getProjectionMatrix_cached: "mProjectionCached (snd (getProjectionMatrix c))"
  by (cases "kind c") (simp_all add: getMatrix_defs calc_defs Let_def)

lemma getProjectionMatrix_idem:
  "fst (getProjectionMatrix (snd (getProjectionMatrix c))) = fst (getProjectionMatrix c)"
  by (cases "kind c") (simp_all add: getMatrix_defs calc_defs Let_def)

section \<open>The stereo projection matrices\<close>

lemma mat4_set_other:
  "(col, row) \<notin> {(I2, I0), (I3, I0)} \<Longrightarrow>
   mat4_get (mat4_set (mat4_set m I2 I0 a) I3 I0 b) col row = mat4_get m col row"
  by (cases col; cases row) (simp_all add: mat4_get_def)

lemma mat4_set_vals:
  "mat4_get (mat4_set (mat4_set m I2 I0 a) I3 I0 b) I2 I0 = a"
  "mat4_get (mat4_set (mat4_set m I2 I0 a) I3 I0 b) I3 I0 = b"
  by (simp_all add: mat4_get_def)

lemma persp_proj_keeps:
  "mEyeSeparation (CameraPersp_calcProjection c) = mEyeSeparation c"
  "mConvergence (CameraPersp_calcProjection c) = mConvergence c"
  "mNearClip (CameraPersp_calcProjection c) = mNearClip c"
  "mProjectionCached (CameraPersp_calcProjection c)"
  by (simp_all add: CameraPersp_calcProjection_def Let_def)

lemma stereo_proj_fields:
  "mProjectionMatrix (CameraStereo_calcProjection c)
     = mProjectionMatrix (CameraPersp_calcProjection c)"
  "mInverseProjectionMatrix (CameraStereo_calcProjection c)
     = mInverseProjectionMatrix (CameraPersp_calcProjection c)"
  "mProjectionMatrixLeft (CameraStereo_calcProjection c)
     = mProjectionMatrix (CameraPersp_calcProjection c)"
  "mInverseProjectionMatrixRight (CameraStereo_calcProjection c)
     = mInverseProjectionMatrix (CameraPersp_calcProjection c)"
  by (simp_all add: CameraStereo_calcProjection_def Let_def)

lemma stereo_proj_left_inverse:
  "mInverseProjectionMatrixLeft (CameraStereo_calcProjection c) =
     mat4_set
       (mat4_set (mInverseProjectionMatrix (CameraPersp_calcProjection c)) I2 I0
          ((mFrustumRight (CameraPersp_calcProjection c)
              + mFrustumLeft (CameraPersp_calcProjection c)
              + mEyeSeparation c * (mNearClip c / mConvergence c))
           / (mFrustumRight (CameraPersp_calcProjection c)
                - mFrustumLeft (CameraPersp_calcProjection c))))
       I3 I0
       ((mFrustumRight (CameraPersp_calcProjection c)
           + mFrustumLeft (CameraPersp_calcProjection c)
           + mEyeSeparation c * (mNearClip c / mConvergence c))
        / (2 * mNearClip c))"
  by (simp add: CameraStereo_calcProjection_def Let_def persp_proj_keeps del: mat4_set.simps)

lemma stereo_proj_right:
  "mProjectionMatrixRight (CameraStereo_calcProjection c) =
     mat4_set
       (mat4_set (mProjectionMatrix (CameraPersp_calcProjection c)) I2 I0
          ((mFrustumRight (CameraPersp_calcProjection c)
              + mFrustumLeft (CameraPersp_calcProjection c)
              - mEyeSeparation c * (mNearClip c / mConvergence c))
           / (mFrustumRight (CameraPersp_calcProjection c)
                - mFrustumLeft (CameraPersp_calcProjection c))))
       I3 I0
       ((mFrustumRight (CameraPersp_calcProjection c)
           + mFrustumLeft (CameraPersp_calcProjection c)
           - mEyeSeparation c * (mNearClip c / mConvergence c))
        / (2 * mNearClip c))"
  by (simp add: CameraStereo_calcProjection_def Let_def persp_proj_keeps del: mat4_set.simps)

lemma stereo_proj_frame:
  "CameraStereo_calcProjection c =
     (CameraPersp_calcProjection c)
       \<lparr>mProjectionMatrixLeft := mProjectionMatrixLeft (CameraStereo_calcProjection c),
        mInverseProjectionMatrixLeft :=
          mInverseProjectionMatrixLeft (CameraStereo_calcProjection c),
        mProjectionMatrixRight := mProjectionMatrixRight (CameraStereo_calcProjection c),
        mInverseProjectionMatrixRight :=
          mInverseProjectionMatrixRight (CameraStereo_calcProjection c),
        mProjectionCached := True\<rparr>"
  by (simp add: CameraStereo_calcProjection_def Let_def del: mat4_set.simps)

text \<open>
  C3: \<^verbatim>\<open>CameraStereo::calcProjection\<close> first runs the perspective computation, which
  gives the cyclopean projection and inverse projection and the extents \<open>R\<close> and \<open>L\<close>
  (\<open>frustumRight\<close>, \<open>frustumLeft\<close>); it then writes only the four stereo matrices and the
  cache flag. With \<open>eyeSeparation\<close>, \<open>near\<close> and \<open>convergence\<close> the values the camera
  has before the call (the call does not change them): the left projection and the right
  inverse projection are entrywise the cyclopean ones; the left inverse projection and
  the right projection agree with the cyclopean ones in every entry other than
  \<^verbatim>\<open>[2][0]\<close> and \<^verbatim>\<open>[3][0]\<close>, and there they hold
  \<open>(R + L \<plusminus> eyeSeparation * (near / convergence)) / (R - L)\<close> and
  \<open>(R + L \<plusminus> eyeSeparation * (near / convergence)) / (2 * near)\<close>, with \<open>+\<close> for
  the left inverse projection and \<open>-\<close> for the right projection.
\<close>

theorem stereo_projection_entries:
  "mProjectionMatrix (CameraStereo_calcProjection c)
     = mProjectionMatrix (CameraPersp_calcProjection c)
   \<and> mInverseProjectionMatrix (CameraStereo_calcProjection c)
       = mInverseProjectionMatrix (CameraPersp_calcProjection c)
   \<and> mProjectionMatrixLeft (CameraStereo_calcProjection c)
       = mProjectionMatrix (CameraPersp_calcProjection c)
   \<and> mInverseProjectionMatrixRight (CameraStereo_calcProjection c)
       = mInverseProjectionMatrix (CameraPersp_calcProjection c)
   \<and> (\<forall>col row. (col, row) \<notin> {(I2, I0), (I3, I0)} \<longrightarrow>
         mat4_get (mInverseProjectionMatrixLeft (CameraStereo_calcProjection c)) col row
           = mat4_get (mInverseProjectionMatrix (CameraPersp_calcProjection c)) col row)
   \<and> (\<forall>col row. (col, row) \<notin> {(I2, I0), (I3, I0)} \<longrightarrow>
         mat4_get (mProjectionMatrixRight (CameraStereo_calcProjection c)) col row
           = mat4_get (mProjectionMatrix (CameraPersp_calcProjection c)) col row)
   \<and> mat4_get (mInverseProjectionMatrixLeft (CameraStereo_calcProjection c)) I2 I0
       = (mFrustumRight (CameraPersp_calcProjection c)
            + mFrustumLeft (CameraPersp_calcProjection c)
            + mEyeSeparation c * (mNearClip c / mConvergence c))
         / (mFrustumRight (CameraPersp_calcProjection c)
              - mFrustumLeft (CameraPersp_calcProjection c))
   \<and> mat4_get (mInverseProjectionMatrixLeft (CameraStereo_calcProjection c)) I3 I0
       = (mFrustumRight (CameraPersp_calcProjection c)
            + mFrustumLeft (CameraPersp_calcProjection c)
            + mEyeSeparation c * (mNearClip c / mConvergence c))
         / (2 * mNearClip c)
   \<and> mat4_get (mProjectionMatrixRight (CameraStereo_calcProjection c)) I2 I0
       = (mFrustumRight (CameraPersp_calcProjection c)
            + mFrustumLeft (CameraPersp_calcProjection c)
            - mEyeSeparation c * (mNearClip c / mConvergence c))
         / (mFrustumRight (CameraPersp_calcProjection c)
              - mFrustumLeft (CameraPersp_calcProjection c))
   \<and> mat4_get (mProjectionMatrixRight (CameraStereo_calcProjection c)) I3 I0
       = (mFrustumRight (CameraPersp_calcProjection c)
            + mFrustumLeft (CameraPersp_calcProjection c)
            - mEyeSeparation c * (mNearClip c / mConvergence c))
         / (2 * mNearClip c)
   \<and> CameraStereo_calcProjection c =
       (CameraPersp_calcProjection c)
         \<lparr>mProjectionMatrixLeft := mProjectionMatrixLeft (CameraStereo_calcProjection c),
          mInverseProjectionMatrixLeft :=
            mInverseProjectionMatrixLeft (CameraStereo_calcProjection c),
          mProjectionMatrixRight := mProjectionMatrixRight (CameraStereo_calcProjection c),
          mInverseProjectionMatrixRight :=
            mInverseProjectionMatrixRight (CameraStereo_calcProjection c),
          mProjectionCached := True\<rparr>
   \<and> mFrustumRight (CameraStereo_calcProjection c) = mFrustumRight (CameraPersp_calcProjection c)
   \<and> mFrustumLeft (CameraStereo_calcProjection c) = mFrustumLeft (CameraPersp_calcProjection c)
   \<and> mEyeSeparation (CameraStereo_calcProjection c) = mEyeSeparation c
   \<and> mNearClip (CameraStereo_calcProjection c) = mNearClip c
   \<and> mConvergence (CameraStereo_calcProjection c) = mConvergence c"
proof -
  let ?c = "CameraStereo_calcProjection c"
  let ?p = "CameraPersp_calcProjection c"
  let ?plus = "mFrustumRight ?p + mFrustumLeft ?p + mEyeSeparation c * (mNearClip c / mConvergence c)"
  let ?minus = "mFrustumRight ?p + mFrustumLeft ?p - mEyeSeparation c * (mNearClip c / mConvergence c)"
  have left_inv_other: "\<forall>col row. (col, row) \<notin> {(I2, I0), (I3, I0)} \<longrightarrow>
      mat4_get (mInverseProjectionMatrixLeft ?c) col row
        = mat4_get (mInverseProjectionMatrix ?p) col row"
    by (intro allI impI, subst stereo_proj_left_inverse) (rule mat4_set_other)
  have right_other: "\<forall>col row. (col, row) \<notin> {(I2, I0), (I3, I0)} \<longrightarrow>
      mat4_get (mProjectionMatrixRight ?c) col row = mat4_get (mProjectionMatrix ?p) col row"
    by (intro allI impI, subst stereo_proj_right) (rule mat4_set_other)
  have l20: "mat4_get (mInverseProjectionMatrixLeft ?c) I2 I0
               = ?plus / (mFrustumRight ?p - mFrustumLeft ?p)"
    by (subst stereo_proj_left_inverse) (rule mat4_set_vals)
  have l30: "mat4_get (mInverseProjectionMatrixLeft ?c) I3 I0 = ?plus / (2 * mNearClip c)"
    by (subst stereo_proj_left_inverse) (rule mat4_set_vals)
  have r20: "mat4_get (mProjectionMatrixRight ?c) I2 I0
               = ?minus / (mFrustumRight ?p - mFrustumLeft ?p)"
    by (subst stereo_proj_right) (rule mat4_set_vals)
  have r30: "mat4_get (mProjectionMatrixRight ?c) I3 I0 = ?minus / (2 * mNearClip c)"
    by (subst stereo_proj_right) (rule mat4_set_vals)
  have kept: "mFrustumRight ?c = mFrustumRight ?p" "mFrustumLeft ?c = mFrustumLeft ?p"
    "mEyeSeparation ?c = mEyeSeparation c" "mNearClip ?c = mNearClip c"
    "mConvergence ?c = mConvergence c"
    by (simp_all add: CameraStereo_calcProjection_def Let_def persp_proj_keeps)
  show ?thesis
    by (intro conjI stereo_proj_fields left_inv_other right_other l20 l30 r20 r30
          stereo_proj_frame kept)
qed

theorem stereo_projection_entries_witness:
  "(I1, I1) \<notin> {(I2, I0), (I3, I0)}
   \<and> mat4_get (mInverseProjectionMatrixLeft (CameraStereo_calcProjection (sample_camera Stereo))) I1 I1
       = mat4_get (mInverseProjectionMatrix (CameraPersp_calcProjection (sample_camera Stereo))) I1 I1
   \<and> mat4_get (mProjectionMatrixRight (CameraStereo_calcProjection (sample_camera Stereo))) I1 I1
       = mat4_get (mProjectionMatrix (CameraPersp_calcProjection (sample_camera Stereo))) I1 I1"
proof -
  have h: "(I1, I1) \<notin> {(I2, I0), (I3, I0)}" by simp
  from stereo_projection_entries [of "sample_camera Stereo"] h show ?thesis by blast
qed

section \<open>Pose and lens are cached separately\<close>

lemma setPerspective_view:
  "fst (getViewMatrix (setPerspective c fov a n f)) = fst (getViewMatrix c)"
  by (cases "kind c") (simp_all add: getMatrix_defs setPerspective_def calc_defs Let_def)

lemma setPerspective_view_flag:
  "mModelViewCached (setPerspective c fov a n f) = mModelViewCached c"
  by (simp add: setPerspective_def)

text \<open>
  The matrix that \<^verbatim>\<open>getProjectionMatrix\<close> returns depends on the lens members only.
\<close>

lemma projection_frame:
  assumes "kind c' = kind c" "mFov c' = mFov c" "mAspectRatio c' = mAspectRatio c"
    "mNearClip c' = mNearClip c" "mFarClip c' = mFarClip c" "mLensShift c' = mLensShift c"
    "mFrustumLeft c' = mFrustumLeft c" "mFrustumRight c' = mFrustumRight c"
    "mFrustumTop c' = mFrustumTop c" "mFrustumBottom c' = mFrustumBottom c"
    "mIsStereo c' = mIsStereo c" "mIsLeft c' = mIsLeft c"
    "mConvergence c' = mConvergence c" "mEyeSeparation c' = mEyeSeparation c"
    "mProjectionCached c' = mProjectionCached c" "mProjectionMatrix c' = mProjectionMatrix c"
    "mProjectionMatrixLeft c' = mProjectionMatrixLeft c"
    "mProjectionMatrixRight c' = mProjectionMatrixRight c"
  shows "fst (getProjectionMatrix c') = fst (getProjectionMatrix c)"
  using assms by (cases "kind c") (simp_all add: getMatrix_defs calc_defs Let_def)

lemma pose_op_projection:
  "fst (getProjectionMatrix (apply_pose_op alignQ c op)) = fst (getProjectionMatrix c)"
  by (rule projection_frame; cases op)
     (simp_all add: setEyePoint_def setCenterOfInterestPoint_def setViewDirection_def
        setOrientation_def setWorldUp_def lookAt_def lookAt_eye_def lookAt_eye_up_def Let_def)

lemma pose_op_projection_flag:
  "mProjectionCached (apply_pose_op alignQ c op) = mProjectionCached c"
  by (cases op)
     (simp_all add: setEyePoint_def setCenterOfInterestPoint_def setViewDirection_def
        setOrientation_def setWorldUp_def lookAt_def lookAt_eye_def lookAt_eye_up_def Let_def)

text \<open>
  C4: pose and lens are cached separately. \<^verbatim>\<open>setPerspective\<close> leaves the matrix that
  \<^verbatim>\<open>getViewMatrix\<close> returns unchanged and does not clear the view-cache flag: a view
  matrix computed before the call is returned again after it, from a cache that is still
  valid. Each operation of the pose-mutation contract (\<^verbatim>\<open>setEyePoint\<close>,
  \<^verbatim>\<open>setCenterOfInterestPoint\<close>, \<^verbatim>\<open>setViewDirection\<close>, \<^verbatim>\<open>setOrientation\<close>,
  \<^verbatim>\<open>setWorldUp\<close>, \<^verbatim>\<open>lookAt\<close>) leaves the matrix that \<^verbatim>\<open>getProjectionMatrix\<close>
  returns unchanged and does not clear the projection-cache flag.
\<close>

theorem pose_and_lens_caches_separate:
  "fst (getViewMatrix (setPerspective c fov a n f)) = fst (getViewMatrix c)
   \<and> mModelViewCached (setPerspective c fov a n f) = mModelViewCached c
   \<and> fst (getViewMatrix (setPerspective (snd (getViewMatrix c)) fov a n f)) = fst (getViewMatrix c)
   \<and> mModelViewCached (setPerspective (snd (getViewMatrix c)) fov a n f)
   \<and> fst (getProjectionMatrix (apply_pose_op alignQ c op)) = fst (getProjectionMatrix c)
   \<and> mProjectionCached (apply_pose_op alignQ c op) = mProjectionCached c
   \<and> fst (getProjectionMatrix (apply_pose_op alignQ (snd (getProjectionMatrix c)) op))
       = fst (getProjectionMatrix c)
   \<and> mProjectionCached (apply_pose_op alignQ (snd (getProjectionMatrix c)) op)"
  by (simp add: setPerspective_view setPerspective_view_flag getViewMatrix_idem
        getViewMatrix_cached pose_op_projection pose_op_projection_flag
        getProjectionMatrix_idem getProjectionMatrix_cached)

section \<open>Ray generation ignores the stereo eye shift\<close>

lemma generateRay_origin: "mOrigin (fst (generateRay c u v a)) = mEyePoint c"
  by (simp add: generateRay_def Let_def calcMatrices_pose_clip)

lemma rotate_x_length2:
  "dot (glm_rotate q (Vec3 1 0 0)) (glm_rotate q (Vec3 1 0 0))
     = 1 - 4 * (qy q * qy q + qz q * qz q) * (1 - quat_length2 q)"
  by (simp add: glm_rotate_def dot_def cross_def vadd_def smul_def quat_length2_def Let_def
        algebra_simps)

lemma shifted_eye_differs:
  assumes "mIsStereo c" and "mEyeSeparation c \<noteq> 0" and "quat_length2 (mOrientation c) = 1"
  shows "getEyePointShifted c \<noteq> mEyePoint c"
proof
  assume eq: "getEyePointShifted c = mEyePoint c"
  define r where "r = glm_rotate (mOrientation c) (Vec3 1 0 0)"
  define k where "k = 0.5 * mEyeSeparation c"
  have k: "k \<noteq> 0" using assms(2) by (simp add: k_def)
  have "smul k r = Vec3 0 0 0"
    using eq assms(1) unfolding getEyePointShifted_def r_def [symmetric] k_def [symmetric]
    by (cases "mIsLeft c") (simp_all add: vsub_eq_self vadd_eq_self)
  with k have "vx r = 0 \<and> vy r = 0 \<and> vz r = 0" by (simp add: smul_def)
  then have "dot r r = 0" by (simp add: dot_def)
  moreover have "dot r r = 1"
    using rotate_x_length2 [of "mOrientation c"] assms(3) by (simp add: r_def)
  ultimately show False by simp
qed

text \<open>
  C9: ray generation is not stereo-aware. For every stereo camera with \<open>isStereo\<close> set
  and every input \<open>(u, v, aspectRatio)\<close>, the origin of the ray that \<^verbatim>\<open>generateRay\<close>
  returns is the unshifted eye point; it is the same whatever the eye separation and the
  selected eye are; and it is not the point that \<^verbatim>\<open>getEyePointShifted\<close> returns
  whenever that point is really shifted, that is, when the eye separation is not zero and
  the orientation is a unit quaternion.
\<close>

theorem generateRay_not_stereo_aware:
  assumes "kind c = Stereo" and "mIsStereo c"
  shows "mOrigin (fst (generateRay c u v a)) = mEyePoint c
       \<and> mOrigin (fst (generateRay (c\<lparr>mEyeSeparation := e, mIsLeft := l\<rparr>) u v a))
           = mOrigin (fst (generateRay c u v a))
       \<and> (mEyeSeparation c \<noteq> 0 \<and> quat_length2 (mOrientation c) = 1 \<longrightarrow>
            mOrigin (fst (generateRay c u v a)) \<noteq> getEyePointShifted c)"
  using assms shifted_eye_differs [of c] by (auto simp add: generateRay_origin)

theorem generateRay_not_stereo_aware_witness:
  "kind (sample_camera Stereo) = Stereo \<and> mIsStereo (sample_camera Stereo)
   \<and> mEyeSeparation (sample_camera Stereo) \<noteq> 0
   \<and> quat_length2 (mOrientation (sample_camera Stereo)) = 1
   \<and> mOrigin (fst (generateRay (sample_camera Stereo) (1 / 2) (1 / 2) 1))
       = mEyePoint (sample_camera Stereo)
   \<and> mOrigin (fst (generateRay (sample_camera Stereo) (1 / 2) (1 / 2) 1))
       \<noteq> getEyePointShifted (sample_camera Stereo)"
proof -
  have k: "kind (sample_camera Stereo) = Stereo" and s: "mIsStereo (sample_camera Stereo)"
    and e: "mEyeSeparation (sample_camera Stereo) \<noteq> 0"
    and q: "quat_length2 (mOrientation (sample_camera Stereo)) = 1"
    by (simp_all add: sample_camera_def quat_length2_def)
  from generateRay_not_stereo_aware [OF k s, of "1 / 2" "1 / 2" 1] k s e q
  show ?thesis by blast
qed

section \<open>The orthographic extents are never recomputed\<close>

lemma ortho_calcMatrices:
  assumes "kind c = Ortho"
  shows "kind (calcMatrices c) = Ortho \<and> extents (calcMatrices c) = extents c"
  using assms by (simp add: calcMatrices_def calc_defs extents_def Let_def)

lemma ortho_getViewMatrix:
  assumes "kind c = Ortho"
  shows "kind (snd (getViewMatrix c)) = Ortho \<and> extents (snd (getViewMatrix c)) = extents c"
  using assms by (simp add: getMatrix_defs calc_defs extents_def Let_def)

lemma ortho_getProjectionMatrix:
  assumes "kind c = Ortho"
  shows "kind (snd (getProjectionMatrix c)) = Ortho
       \<and> extents (snd (getProjectionMatrix c)) = extents c"
  using assms by (simp add: getMatrix_defs calc_defs extents_def Let_def)

lemma ortho_after_query:
  assumes "kind c = Ortho"
  shows "kind (after_query c q) = Ortho \<and> extents (after_query c q) = extents c"
proof (cases q)
  case GetViewMatrix
  then show ?thesis using ortho_getViewMatrix [OF assms] by simp
next
  case GetProjectionMatrix
  then show ?thesis using ortho_getProjectionMatrix [OF assms] by simp
next
  case GetFrustum
  then show ?thesis using ortho_calcMatrices [OF assms] by (simp add: getFrustum_def Let_def)
next
  case GetNearClipCoordinates
  then show ?thesis using ortho_calcMatrices [OF assms] assms
    by (simp add: getNearClipCoordinates_def Camera_getNearClipCoordinates_def Let_def)
next
  case GetFarClipCoordinates
  then show ?thesis using ortho_calcMatrices [OF assms] assms
    by (simp add: getFarClipCoordinates_def Camera_getFarClipCoordinates_def Let_def)
next
  case (GenerateRay u v a)
  then show ?thesis using ortho_calcMatrices [OF assms] by (simp add: generateRay_def Let_def)
next
  case GetBillboardVectors
  have 1: "kind (snd (getViewMatrix c)) = Ortho" using ortho_getViewMatrix [OF assms] by simp
  show ?thesis
    using GetBillboardVectors ortho_getViewMatrix [OF assms] ortho_getViewMatrix [OF 1]
    by (simp add: getBillboardVectors_def split_beta Let_def)
next
  case (WorldToScreen p w h)
  have 1: "kind (snd (getViewMatrix c)) = Ortho" using ortho_getViewMatrix [OF assms] by simp
  show ?thesis
    using WorldToScreen ortho_getViewMatrix [OF assms] ortho_getProjectionMatrix [OF 1]
    by (simp add: worldToScreen_def split_beta Let_def)
next
  case (WorldToEyeDepth p)
  then show ?thesis
    using ortho_getViewMatrix [OF assms] by (simp add: worldToEyeDepth_def split_beta Let_def)
next
  case (WorldToNdc p)
  have 1: "kind (snd (getViewMatrix c)) = Ortho" using ortho_getViewMatrix [OF assms] by simp
  show ?thesis
    using WorldToNdc ortho_getViewMatrix [OF assms] ortho_getProjectionMatrix [OF 1]
    by (simp add: worldToNdc_def split_beta Let_def)
qed

lemma ortho_after_queries:
  "kind c = Ortho \<Longrightarrow>
     kind (foldl after_query c qs) = Ortho \<and> extents (foldl after_query c qs) = extents c"
proof (induction qs arbitrary: c)
  case Nil
  then show ?case by simp
next
  case (Cons q qs)
  from ortho_after_query [OF Cons.prems, of q]
  have k: "kind (after_query c q) = Ortho" and e: "extents (after_query c q) = extents c"
    by simp_all
  from Cons.IH [OF k] e show ?case by simp
qed

lemma ortho_calcProjection_extents: "extents (CameraOrtho_calcProjection c) = extents c"
  by (simp add: CameraOrtho_calcProjection_def extents_def)

lemma getFrustum_extents:
  assumes "kind c = Ortho" and "extents c = (L, R, B, T, n, f)"
  shows "fst (getFrustum c) = (L, T, R, B, n, f)"
  using ortho_calcMatrices [OF assms(1)] assms(2) by (simp add: getFrustum_def Let_def extents_def)

text \<open>
  C10: the orthographic extents are never recomputed. For every orthographic camera,
  after \<^verbatim>\<open>setOrtho(L, R, B, T, near, far)\<close> and any sequence of queries, the six stored
  extent members are the values passed in; \<^verbatim>\<open>CameraOrtho::calcProjection\<close> run on that
  state leaves them so, and \<^verbatim>\<open>getFrustum\<close> reports them.
\<close>

theorem ortho_extents_never_recomputed:
  assumes "kind c = Ortho"
  shows "extents (foldl after_query (setOrtho c L R B T n f) qs) = (L, R, B, T, n, f)
       \<and> extents (CameraOrtho_calcProjection (foldl after_query (setOrtho c L R B T n f) qs))
           = (L, R, B, T, n, f)
       \<and> fst (getFrustum (foldl after_query (setOrtho c L R B T n f) qs)) = (L, T, R, B, n, f)"
proof -
  have k: "kind (setOrtho c L R B T n f) = Ortho" using assms by (simp add: setOrtho_def)
  have e0: "extents (setOrtho c L R B T n f) = (L, R, B, T, n, f)"
    by (simp add: extents_def setOrtho_def)
  from ortho_after_queries [OF k, of qs] e0
  have k': "kind (foldl after_query (setOrtho c L R B T n f) qs) = Ortho"
    and e: "extents (foldl after_query (setOrtho c L R B T n f) qs) = (L, R, B, T, n, f)"
    by simp_all
  from e getFrustum_extents [OF k' e] show ?thesis
    by (simp add: ortho_calcProjection_extents)
qed

theorem ortho_extents_never_recomputed_witness:
  "kind (sample_camera Ortho) = Ortho
   \<and> extents (foldl after_query (setOrtho (sample_camera Ortho) (- 4) 4 (- 3) 3 1 10)
        [GetProjectionMatrix, GetFrustum, GetFarClipCoordinates]) = (- 4, 4, - 3, 3, 1, 10)"
proof -
  have k: "kind (sample_camera Ortho) = Ortho" by (simp add: sample_camera_def)
  from ortho_extents_never_recomputed [OF k] k show ?thesis by blast
qed

section \<open>Framing a sphere\<close>







section \<open>Orientation and view direction\<close>

lemma setOrientation_consistent:
  "mOrientation (setOrientation c q) = normalize_quat q
   \<and> mViewDirection (setOrientation c q) = glm_rotate (normalize_quat q) (Vec3 0 0 (- 1))
   \<and> glm_rotate (mOrientation (setOrientation c q)) (Vec3 0 0 (- 1))
       = mViewDirection (setOrientation c q)"
  by (simp add: setOrientation_def Let_def)

lemma normalize_unit_x: "normalize_vec3 (Vec3 1 0 0) = Vec3 1 0 0"
  by (simp add: normalize_vec3_def smul_def dot_def)

lemma rotation_x_to_neg_z:
  "glm_rotation (Vec3 1 0 0) (Vec3 0 0 (- 1)) = Quat (sqrt 2 / 2) 0 (1 / sqrt 2) 0"
  by (simp add: glm_rotation_def dot_def cross_def epsilon_def Let_def)

lemma rotate_neg_z:
  "glm_rotate (Quat (sqrt 2 / 2) 0 (1 / sqrt 2) 0) (Vec3 0 0 (- 1)) = Vec3 (- 1) 0 0"
  by (simp add: glm_rotate_def cross_def vadd_def smul_def Let_def field_simps)

lemma rotate_x:
  "glm_rotate (Quat (sqrt 2 / 2) 0 (1 / sqrt 2) 0) (Vec3 1 0 0) = Vec3 0 0 (- 1)"
  by (simp add: glm_rotate_def cross_def vadd_def smul_def Let_def field_simps)

text \<open>
  C1: the two pose representations are to stay consistent, with \<open>viewDirection\<close> the
  rotation of \<open>(0, 0, -1)\<close> by \<open>orientation\<close>. \<^verbatim>\<open>setOrientation\<close> keeps them so
  (\<open>setOrientation_consistent\<close>). \<^verbatim>\<open>setViewDirection\<close> stores the rotation that maps
  the view direction onto \<open>(0, 0, -1)\<close>, which is the inverse rotation: for the
  direction \<open>(1, 0, 0)\<close> the stored view direction is \<open>(1, 0, 0)\<close>, the stored
  orientation rotates \<open>(1, 0, 0)\<close> to \<open>(0, 0, -1)\<close>, and it rotates \<open>(0, 0, -1)\<close> to
  \<open>(-1, 0, 0)\<close>, not to the normalised direction.
\<close>

theorem setViewDirection_orientation_reversed:
  "mViewDirection (setViewDirection c (Vec3 1 0 0)) = Vec3 1 0 0
   \<and> normalize_vec3 (Vec3 1 0 0) = Vec3 1 0 0
   \<and> glm_rotate (mOrientation (setViewDirection c (Vec3 1 0 0))) (Vec3 0 0 (- 1)) = Vec3 (- 1) 0 0
   \<and> glm_rotate (mOrientation (setViewDirection c (Vec3 1 0 0))) (Vec3 1 0 0) = Vec3 0 0 (- 1)
   \<and> glm_rotate (mOrientation (setViewDirection c (Vec3 1 0 0))) (Vec3 0 0 (- 1))
       \<noteq> normalize_vec3 (Vec3 1 0 0)"
  by (simp add: setViewDirection_def Let_def normalize_unit_x rotation_x_to_neg_z rotate_neg_z
        rotate_x)

text \<open>
  The orientation is used by \<^verbatim>\<open>calcViewMatrix\<close> as the rotation from camera axes to
  world axes: \<open>U\<close> and \<open>V\<close> are the rotated \<open>x\<close> and \<open>y\<close> axes, while \<open>W\<close> is taken
  from the view direction. After \<^verbatim>\<open>setOrientation\<close> the three axes form a right-handed
  basis, \<open>U \<times> V = W\<close>. After \<^verbatim>\<open>setViewDirection\<close> with the direction \<open>(1, 0, 0)\<close>
  they do not: \<open>U \<times> V = - W\<close>.
\<close>

lemma rotate_y:
  "glm_rotate (Quat (sqrt 2 / 2) 0 (1 / sqrt 2) 0) (Vec3 0 1 0) = Vec3 0 1 0"
  by (simp add: glm_rotate_def cross_def vadd_def smul_def Let_def field_simps)

lemma setViewDirection_basis_mirrored:
  "mU (calcViewMatrix (setViewDirection c (Vec3 1 0 0))) = Vec3 0 0 (- 1)
   \<and> mV (calcViewMatrix (setViewDirection c (Vec3 1 0 0))) = Vec3 0 1 0
   \<and> mW (calcViewMatrix (setViewDirection c (Vec3 1 0 0))) = Vec3 (- 1) 0 0
   \<and> cross (mU (calcViewMatrix (setViewDirection c (Vec3 1 0 0))))
            (mV (calcViewMatrix (setViewDirection c (Vec3 1 0 0))))
       = vneg (mW (calcViewMatrix (setViewDirection c (Vec3 1 0 0))))"
proof -
  have o: "mOrientation (setViewDirection c (Vec3 1 0 0)) = Quat (sqrt 2 / 2) 0 (1 / sqrt 2) 0"
    and d: "mViewDirection (setViewDirection c (Vec3 1 0 0)) = Vec3 1 0 0"
    and k: "kind (setViewDirection c (Vec3 1 0 0)) = kind c"
    by (simp_all add: setViewDirection_def Let_def normalize_unit_x rotation_x_to_neg_z)
  have u: "mU (calcViewMatrix (setViewDirection c (Vec3 1 0 0))) = Vec3 0 0 (- 1)"
    by (cases "kind c") (simp_all add: calc_defs Let_def k o rotate_x)
  have v: "mV (calcViewMatrix (setViewDirection c (Vec3 1 0 0))) = Vec3 0 1 0"
    by (cases "kind c") (simp_all add: calc_defs Let_def k o rotate_y)
  have w: "mW (calcViewMatrix (setViewDirection c (Vec3 1 0 0))) = Vec3 (- 1) 0 0"
    by (cases "kind c") (simp_all add: calc_defs Let_def k d normalize_unit_x vneg_def)
  show ?thesis by (simp add: u v w cross_def vneg_def)
qed

lemma rotate_basis_right_handed:
  assumes "quat_length2 q = 1"
  shows "cross (glm_rotate q (Vec3 1 0 0)) (glm_rotate q (Vec3 0 1 0)) = glm_rotate q (Vec3 0 0 1)"
proof -
  obtain w x y z where q: "q = Quat w x y z" by (cases q)
  from assms have u: "w * w + x * x + y * y + z * z = 1" by (simp add: q quat_length2_def)
  have u': "w * w = 1 - x * x - y * y - z * z" using u by simp
  show ?thesis
    unfolding q
    apply (simp add: glm_rotate_def cross_def vadd_def smul_def Let_def)
    apply (intro conjI)
    using u apply algebra
    using u apply algebra
    using u apply algebra
    done
qed


lemma scaled_unit:
  fixes a b c d l :: real
  assumes "0 < l" and "l * l = a * a + b * b + c * c + d * d"
  shows "a * (1 / l) * (a * (1 / l)) + b * (1 / l) * (b * (1 / l))
           + c * (1 / l) * (c * (1 / l)) + d * (1 / l) * (d * (1 / l)) = 1"
proof -
  have "a * (1 / l) * (a * (1 / l)) + b * (1 / l) * (b * (1 / l))
           + c * (1 / l) * (c * (1 / l)) + d * (1 / l) * (d * (1 / l))
        = (a * a + b * b + c * c + d * d) * (1 / (l * l))"
    by (simp add: algebra_simps)
  also have "\<dots> = (l * l) * (1 / (l * l))" by (simp only: assms(2))
  also have "\<dots> = 1" using assms(1) by simp
  finally show ?thesis .
qed

lemma normalize_quat_unit: "quat_length2 (normalize_quat q) = 1"
proof -
  obtain w x y z where q: "q = Quat w x y z" by (cases q)
  define l where "l = sqrt (w * w + x * x + y * y + z * z)"
  have nn: "0 \<le> w * w + x * x + y * y + z * z" by simp
  have ll: "l * l = w * w + x * x + y * y + z * z"
    unfolding l_def using nn by (simp only: real_sqrt_mult_self abs_of_nonneg)
  have nq: "normalize_quat q =
      (if l \<le> 0 then Quat 1 0 0 0
       else Quat (w * (1 / l)) (x * (1 / l)) (y * (1 / l)) (z * (1 / l)))"
    by (simp add: q normalize_quat_def l_def Let_def)
  show ?thesis
  proof (cases "l \<le> 0")
    case True
    then show ?thesis by (simp add: nq quat_length2_def)
  next
    case False
    then have pos: "0 < l" by simp
    from False have "quat_length2 (normalize_quat q)
        = w * (1 / l) * (w * (1 / l)) + x * (1 / l) * (x * (1 / l))
           + y * (1 / l) * (y * (1 / l)) + z * (1 / l) * (z * (1 / l))"
      by (simp only: nq quat_length2_def if_False quat.sel)
    also have "\<dots> = 1" by (rule scaled_unit [OF pos ll])
    finally show ?thesis .
  qed
qed

lemma rotate_z_length2:
  assumes "quat_length2 q = 1"
  shows "dot (glm_rotate q (Vec3 0 0 1)) (glm_rotate q (Vec3 0 0 1)) = 1"
proof -
  obtain w x y z where q: "q = Quat w x y z" by (cases q)
  from assms have u: "w * w + x * x + y * y + z * z = 1" by (simp add: q quat_length2_def)
  show ?thesis
    unfolding q
    apply (simp add: glm_rotate_def cross_def vadd_def smul_def dot_def Let_def)
    using u apply algebra
    done
qed

lemma rotate_neg_z_eq: "glm_rotate q (Vec3 0 0 (- 1)) = vneg (glm_rotate q (Vec3 0 0 1))"
  by (simp add: glm_rotate_def cross_def vadd_def smul_def vneg_def Let_def)

lemma normalize_vneg_unit:
  assumes "dot r r = 1"
  shows "vneg (normalize_vec3 (vneg r)) = r"
proof -
  have "dot (vneg r) (vneg r) = 1" using assms by (simp add: dot_def vneg_def)
  then show ?thesis by (cases r) (simp add: normalize_vec3_def smul_def vneg_def)
qed

lemma setOrientation_basis_right_handed:
  "cross (mU (calcViewMatrix (setOrientation c q))) (mV (calcViewMatrix (setOrientation c q)))
     = mW (calcViewMatrix (setOrientation c q))"
proof -
  let ?n = "normalize_quat q"
  have o: "mOrientation (setOrientation c q) = ?n"
    and d: "mViewDirection (setOrientation c q) = vneg (glm_rotate ?n (Vec3 0 0 1))"
    and k: "kind (setOrientation c q) = kind c"
    by (simp_all add: setOrientation_def Let_def rotate_neg_z_eq)
  have u: "mU (calcViewMatrix (setOrientation c q)) = glm_rotate ?n (Vec3 1 0 0)"
    by (cases "kind c") (simp_all add: calc_defs Let_def k o)
  have v: "mV (calcViewMatrix (setOrientation c q)) = glm_rotate ?n (Vec3 0 1 0)"
    by (cases "kind c") (simp_all add: calc_defs Let_def k o)
  have "mW (calcViewMatrix (setOrientation c q))
          = vneg (normalize_vec3 (vneg (glm_rotate ?n (Vec3 0 0 1))))"
    by (cases "kind c") (simp_all add: calc_defs Let_def k d)
  then have w: "mW (calcViewMatrix (setOrientation c q)) = glm_rotate ?n (Vec3 0 0 1)"
    by (simp add: normalize_vneg_unit [OF rotate_z_length2 [OF normalize_quat_unit]])
  show ?thesis
    by (simp only: u v w rotate_basis_right_handed [OF normalize_quat_unit])
qed


lemma rotation_maps_orig_to_neg_z:
  assumes unit: "dot v v = 1"
    and lo: "\<not> dot v (Vec3 0 0 (- 1)) < - 1 + epsilon"
    and hi: "\<not> dot v (Vec3 0 0 (- 1)) \<ge> 1 - epsilon"
  shows "glm_rotate (glm_rotation v (Vec3 0 0 (- 1))) v = Vec3 0 0 (- 1)"
proof -
  obtain a b c where v: "v = Vec3 a b c" by (cases v)
  from unit have u: "a * a + b * b + c * c = 1" by (simp add: v dot_def)
  have eps: "0 < epsilon" by (simp add: epsilon_def)
  from lo eps have c1: "c < 1" by (simp add: v dot_def)
  define s where "s = sqrt ((1 - c) * 2)"
  define i where "i = 1 / s"
  have spos: "0 < s" using c1 by (simp add: s_def)
  have ss: "s * s = (1 - c) * 2" using c1 by (simp add: s_def)
  have si: "s * i = 1" using spos by (simp add: i_def)
  have q: "glm_rotation v (Vec3 0 0 (- 1)) = Quat (s * 0.5) (- b * i) (a * i) 0"
    using lo hi by (simp add: v glm_rotation_def dot_def cross_def Let_def s_def i_def)
  have "glm_rotate (Quat (s * 0.5) (- b * i) (a * i) 0) (Vec3 a b c) = Vec3 0 0 (- 1)"
    apply (simp add: glm_rotate_def cross_def vadd_def smul_def Let_def)
    apply (intro conjI)
    using u ss si apply algebra
    using u ss si apply algebra
    using u ss si apply algebra
    done
  then show ?thesis by (subst q) (simp only: v)
qed

lemma normalize_vec3_unit:
  assumes "dot d d \<noteq> 0"
  shows "dot (normalize_vec3 d) (normalize_vec3 d) = 1"
proof -
  have nn: "0 \<le> dot d d" by (simp add: dot_def)
  have "dot (normalize_vec3 d) (normalize_vec3 d)
          = 1 / sqrt (dot d d) * (1 / sqrt (dot d d)) * dot d d"
    by (simp only: normalize_vec3_def dot_smul)
  also have "\<dots> = dot d d / (sqrt (dot d d) * sqrt (dot d d))" by simp
  also have "\<dots> = dot d d / dot d d" using nn by (simp only: real_sqrt_mult_self abs_of_nonneg)
  also have "\<dots> = 1" using assms by simp
  finally show ?thesis .
qed

text \<open>
  What \<^verbatim>\<open>setViewDirection\<close> does establish, away from the two special cases of
  \<^verbatim>\<open>glm::rotation\<close>: the stored orientation rotates the stored view direction onto
  \<open>(0, 0, -1)\<close>.
\<close>

lemma setViewDirection_maps_direction_to_neg_z:
  assumes "dot d d \<noteq> 0"
    and "\<not> dot (normalize_vec3 d) (Vec3 0 0 (- 1)) < - 1 + epsilon"
    and "\<not> dot (normalize_vec3 d) (Vec3 0 0 (- 1)) \<ge> 1 - epsilon"
  shows "glm_rotate (mOrientation (setViewDirection c d)) (mViewDirection (setViewDirection c d))
           = Vec3 0 0 (- 1)"
  using rotation_maps_orig_to_neg_z [OF normalize_vec3_unit [OF assms(1)] assms(2) assms(3)]
  by (simp add: setViewDirection_def Let_def)


end
